theory Spec2Isabelle
  imports Main
begin

section \<open>Values, exceptions and resource objects\<close>

text \<open>
  The module is Python 2 glue code over three collaborators that live in other files of
  the package: \<^verbatim>\<open>BaseResource\<close>, \<^verbatim>\<open>BaseManager\<close> and the HTTP methods of
  \<^verbatim>\<open>BaseClient\<close>. Request bodies and resource attributes are JSON-shaped Python values.
  A dict is an association list in the key order the source writes.
\<close>

datatype pyval =
    PNone
  | PBool bool
  | PInt int
  | PStr string
  | PList "pyval list"
  | PDict "(string \<times> pyval) list"

text \<open>
  The exceptions the module raises itself (\<^verbatim>\<open>InvalidVolumeResize\<close>, \<^verbatim>\<open>FlavorNotFound\<close>, each
  with its message), the typed transport errors it can receive, and the built-in
  exceptions of the Python operations it uses.
\<close>

datatype exc =
    NotFound
  | BadRequest
  | InvalidVolumeResize string
  | FlavorNotFound string
  | IndexError
  | KeyError string
  | AttributeError string
  | TypeError

text \<open>
  \<^verbatim>\<open>CloudDatabaseDatabase\<close>, \<^verbatim>\<open>CloudDatabaseUser\<close> and \<^verbatim>\<open>CloudDatabaseFlavor\<close> are empty
  subclasses of \<^verbatim>\<open>BaseResource\<close>: an object is the three constructor arguments
  \<^verbatim>\<open>(manager, info, loaded)\<close>, the last one \<open>None\<close> when the call leaves it to the
  constructor's default. A manager is identified by its \<^verbatim>\<open>uri_base\<close>.
\<close>

record resource =
  res_manager :: string
  res_info :: "(string \<times> pyval) list"
  res_loaded :: "bool option"

definition CloudDatabaseFlavor ::
  "string \<Rightarrow> (string \<times> pyval) list \<Rightarrow> bool option \<Rightarrow> resource" where
  "CloudDatabaseFlavor manager info loaded =
     \<lparr>res_manager = manager, res_info = info, res_loaded = loaded\<rparr>"

text \<open>
  Modelled from the spec: \<^verbatim>\<open>BaseResource\<close> is not part of this file; section 6 describes it
  as a passive attribute holder populated from a response body fragment. Reading an
  attribute the fragment does not carry raises \<^verbatim>\<open>AttributeError\<close>.
\<close>

definition getattr :: "resource \<Rightarrow> string \<Rightarrow> exc + pyval" where
  "getattr r k = (case map_of (res_info r) k of
                    None \<Rightarrow> Inl (AttributeError k)
                  | Some v \<Rightarrow> Inr v)"

text \<open>
  A \<^verbatim>\<open>CloudDatabaseInstance\<close>: its owning manager, its \<^verbatim>\<open>id\<close>, its \<^verbatim>\<open>volume\<close> dict and the
  private slot \<^verbatim>\<open>_flavor\<close> behind the \<^verbatim>\<open>flavor\<close> property (\<open>None\<close>: the attribute does
  not exist yet).
\<close>

record db_instance =
  inst_manager :: string
  inst_id :: string
  inst_volume :: "(string \<times> int) list"
  inst_flavor_slot :: "resource option"

text \<open>The two sub-managers built in \<^verbatim>\<open>CloudDatabaseInstance.__init__\<close>, by their \<^verbatim>\<open>uri_base\<close>.\<close>

definition database_manager :: "db_instance \<Rightarrow> string" where
  "database_manager self = ''instances/'' @ inst_id self @ ''/databases''"

definition user_manager :: "db_instance \<Rightarrow> string" where
  "user_manager self = ''instances/'' @ inst_id self @ ''/users''"

section \<open>Polymorphic arguments\<close>

text \<open>
  A flavor is given as a \<^verbatim>\<open>CloudDatabaseFlavor\<close> object or as a plain value: an integer
  (an id or a RAM size) or a string (a name). Python 2 has two integer types: \<open>IntVal\<close> is
  an object of type \<^verbatim>\<open>int\<close>, \<open>LongVal\<close> an object of type \<^verbatim>\<open>long\<close> (written \<^verbatim>\<open>2L\<close>, and the
  type of every integer beyond \<^verbatim>\<open>sys.maxint\<close>). \<^verbatim>\<open>isinstance(v, int)\<close> holds for the first
  and not for the second.
\<close>

datatype scalar = IntVal int | LongVal int | StrVal string

datatype flavor_arg = FlavorObj resource | FlavorVal scalar

text \<open>An instance is given as a \<^verbatim>\<open>CloudDatabaseInstance\<close> object or as its identifier.\<close>

datatype instance_arg = InstanceObj db_instance | InstanceId pyval

text \<open>A database is named by a bare string or by a \<^verbatim>\<open>CloudDatabaseDatabase\<close> object.\<close>

datatype db_ref = DbName string | DbObj resource

datatype db_names_arg = DbList "db_ref list" | DbSingle db_ref

text \<open>The value given to the \<^verbatim>\<open>flavor\<close> property setter: a dict or a Flavor object.\<close>

datatype flavor_setting = FromDict "(string \<times> pyval) list" | FromFlavor resource

text \<open>
  The keyword arguments of \<^verbatim>\<open>_create_body\<close> after \<^verbatim>\<open>name\<close>; \<open>None\<close> is Python's
  \<^verbatim>\<open>None\<close>, the default of each.
\<close>

record create_kwargs =
  kw_flavor :: "flavor_arg option"
  kw_volume :: "pyval option"
  kw_databases :: "pyval option"
  kw_users :: "pyval option"
  kw_character_set :: "string option"
  kw_collate :: "string option"
  kw_password :: "string option"
  kw_database_names :: "pyval list option"

definition no_kwargs :: create_kwargs where
  "no_kwargs = \<lparr>kw_flavor = None, kw_volume = None, kw_databases = None, kw_users = None,
                kw_character_set = None, kw_collate = None, kw_password = None,
                kw_database_names = None\<rparr>"

section \<open>Python string formatting\<close>

text \<open>
  \<^verbatim>\<open>"%s" % v\<close> for an integer of either type (decimal digits, a minus sign first, no
  \<^verbatim>\<open>L\<close> suffix) and for a string.
\<close>

fun digits :: "nat \<Rightarrow> string" where
  "digits n = (if n < 10 then [''0123456789'' ! n]
               else digits (n div 10) @ [''0123456789'' ! (n mod 10)])"

definition str_int :: "int \<Rightarrow> string" where
  "str_int i = (if i < 0 then ''-'' @ digits (nat (- i)) else digits (nat i))"

fun str_scalar :: "scalar \<Rightarrow> string" where
  "str_scalar (IntVal i) = str_int i"
| "str_scalar (LongVal i) = str_int i"
| "str_scalar (StrVal s) = s"

definition quoted :: "string \<Rightarrow> string" where
  "quoted s = [CHR 0x27] @ s @ [CHR 0x27]"

section \<open>Collaborators and effects\<close>

text \<open>
  Every use of a collaborator is a \<open>call\<close>. The calls made so far are the state; what a
  collaborator answers is a parameter (\<open>env\<close>), a function of the calls made before and
  of the call itself, so that a lookup can see an earlier create. An operation takes the
  calls made so far and returns its result, or the exception it raises, with the calls
  made after it.
\<close>

datatype call =
    ManagerList string
  | ManagerGet string pyval
  | ManagerFind string string
  | ManagerCreate string string create_kwargs bool
  | ManagerDelete string string
  | MethodPost string "pyval option"
  | MethodGet string

record env =
  reply_instance :: "call list \<Rightarrow> call \<Rightarrow> exc + db_instance"
  reply_resource :: "call list \<Rightarrow> call \<Rightarrow> exc + resource"
  reply_resources :: "call list \<Rightarrow> call \<Rightarrow> exc + resource list"
  reply_body :: "call list \<Rightarrow> call \<Rightarrow> exc + pyval"
  reply_none :: "call list \<Rightarrow> call \<Rightarrow> exc + unit"

type_synonym 'a action = "call list \<Rightarrow> (exc + 'a) \<times> call list"

definition returns :: "'a \<Rightarrow> 'a action" where
  "returns x = (\<lambda>calls. (Inr x, calls))"

definition raises :: "exc \<Rightarrow> 'a action" where
  "raises e = (\<lambda>calls. (Inl e, calls))"

definition lift :: "exc + 'a \<Rightarrow> 'a action" where
  "lift r = (\<lambda>calls. (r, calls))"

definition bind :: "'a action \<Rightarrow> ('a \<Rightarrow> 'b action) \<Rightarrow> 'b action" where
  "bind m f = (\<lambda>calls. case m calls of
                          (Inl e, calls') \<Rightarrow> (Inl e, calls')
                        | (Inr x, calls') \<Rightarrow> f x calls')"

definition try_except :: "'a action \<Rightarrow> (exc \<Rightarrow> 'a action) \<Rightarrow> 'a action" where
  "try_except m handler = (\<lambda>calls. case m calls of
                                      (Inl e, calls') \<Rightarrow> handler e calls'
                                    | (Inr x, calls') \<Rightarrow> (Inr x, calls'))"

definition ask :: "(call list \<Rightarrow> call \<Rightarrow> exc + 'a) \<Rightarrow> call \<Rightarrow> 'a action" where
  "ask reply c = (\<lambda>calls. (reply calls c, calls @ [c]))"

text \<open>Sequencing of pure steps that can raise.\<close>

definition and_then :: "exc + 'a \<Rightarrow> ('a \<Rightarrow> exc + 'b) \<Rightarrow> exc + 'b" where
  "and_then r f = (case r of Inl e \<Rightarrow> Inl e | Inr x \<Rightarrow> f x)"

text \<open>\<^verbatim>\<open>try: r except IndexError: handler\<close>, for pure steps.\<close>

definition except_IndexError :: "exc + 'a \<Rightarrow> (exc + 'a) \<Rightarrow> exc + 'a" where
  "except_IndexError r handler = (case r of Inl IndexError \<Rightarrow> handler | _ \<Rightarrow> r)"

section \<open>Python operations on values\<close>

text \<open>
  A list comprehension \<^verbatim>\<open>[e(x) for x in xs if c(x)]\<close> whose condition or element
  expression can raise: the function gives \<open>Inl\<close> to raise, \<open>Inr None\<close> to skip the
  element and \<open>Inr (Some y)\<close> to keep \<open>y\<close>. The first failing element ends it.
\<close>

fun comprehension :: "('a \<Rightarrow> exc + 'b option) \<Rightarrow> 'a list \<Rightarrow> exc + 'b list" where
  "comprehension f [] = Inr []"
| "comprehension f (x # xs) =
     (case f x of
        Inl e \<Rightarrow> Inl e
      | Inr r \<Rightarrow> (case comprehension f xs of
                    Inl e \<Rightarrow> Inl e
                  | Inr ys \<Rightarrow> Inr (case r of None \<Rightarrow> ys | Some y \<Rightarrow> y # ys)))"

text \<open>\<^verbatim>\<open>xs[0]\<close>.\<close>

definition getitem0 :: "'a list \<Rightarrow> exc + 'a" where
  "getitem0 xs = (case xs of [] \<Rightarrow> Inl IndexError | x # _ \<Rightarrow> Inr x)"

text \<open>\<^verbatim>\<open>v[k]\<close> for a string key: a dict lookup; no other value takes a string index.\<close>

definition subscript :: "pyval \<Rightarrow> string \<Rightarrow> exc + pyval" where
  "subscript v k = (case v of
                      PDict kvs \<Rightarrow> (case map_of kvs k of
                                       None \<Rightarrow> Inl (KeyError k)
                                     | Some x \<Rightarrow> Inr x)
                    | _ \<Rightarrow> Inl TypeError)"

text \<open>
  \<^verbatim>\<open>for x in v\<close>: the elements of a list, the keys of a dict, the characters of a
  string; \<^verbatim>\<open>None\<close>, booleans and integers are not iterable.
\<close>

definition iterate :: "pyval \<Rightarrow> exc + pyval list" where
  "iterate v = (case v of
                  PList xs \<Rightarrow> Inr xs
                | PDict kvs \<Rightarrow> Inr (map (\<lambda>kv. PStr (fst kv)) kvs)
                | PStr s \<Rightarrow> Inr (map (\<lambda>c. PStr [c]) s)
                | _ \<Rightarrow> Inl TypeError)"

text \<open>
  \<^verbatim>\<open>a == v\<close> between an attribute value and a plain argument: integers compare with
  integers by value, whichever of the two types they have (a boolean is the integer 0
  or 1), strings with strings, nothing else is equal.
\<close>

fun py_eq :: "pyval \<Rightarrow> scalar \<Rightarrow> bool" where
  "py_eq (PInt j) (IntVal i) = (j = i)"
| "py_eq (PInt j) (LongVal i) = (j = i)"
| "py_eq (PBool b) (IntVal i) = ((if b then 1 else 0) = i)"
| "py_eq (PBool b) (LongVal i) = ((if b then 1 else 0) = i)"
| "py_eq (PStr t) (StrVal s) = (t = s)"
| "py_eq _ _ = False"

section \<open>CloudDatabaseClient: flavors\<close>

definition list_flavors :: "env \<Rightarrow> resource list action" where
  "list_flavors env = ask (reply_resources env) (ManagerList ''flavors'')"

definition get_flavor :: "env \<Rightarrow> pyval \<Rightarrow> resource action" where
  "get_flavor env flavor_id = ask (reply_resource env) (ManagerGet ''flavors'' flavor_id)"

text \<open>\<^verbatim>\<open>[flav for flav in flavors if flav.<attr> == flavor]\<close>.\<close>

definition flavors_where :: "string \<Rightarrow> scalar \<Rightarrow> resource list \<Rightarrow> exc + resource list" where
  "flavors_where attr flavor flavors =
     comprehension (\<lambda>flav. and_then (getattr flav attr)
                              (\<lambda>a. Inr (if py_eq a flavor then Some flav else None)))
                   flavors"

text \<open>\<^verbatim>\<open>[link["href"] for link in flavor_obj.links if link["rel"] == "self"][0]\<close>.\<close>

definition self_href :: "resource \<Rightarrow> exc + pyval" where
  "self_href flavor_obj =
     and_then (getattr flavor_obj ''links'') (\<lambda>links.
     and_then (iterate links) (\<lambda>links.
     and_then (comprehension
                 (\<lambda>link. and_then (subscript link ''rel'') (\<lambda>rel.
                            if rel = PStr ''self''
                            then and_then (subscript link ''href'') (\<lambda>href. Inr (Some href))
                            else Inr None))
                 links)
              getitem0))"

text \<open>
  The first step of \<^verbatim>\<open>_get_flavor_ref\<close> for a plain value: under
  \<^verbatim>\<open>isinstance(flavor, int)\<close> the value is looked up as an id, and \<^verbatim>\<open>NotFound\<close> alone is
  caught; a \<^verbatim>\<open>long\<close> and a string fail the test and are not looked up.
\<close>

fun lookup_by_id :: "env \<Rightarrow> scalar \<Rightarrow> resource option action" where
  "lookup_by_id env (IntVal i) =
     try_except (bind (get_flavor env (PInt i)) (\<lambda>flavor_obj. returns (Some flavor_obj)))
                (\<lambda>e. if e = NotFound then returns None else raises e)"
| "lookup_by_id env (LongVal i) = returns None"
| "lookup_by_id env (StrVal s) = returns None"

text \<open>The \<^verbatim>\<open>if flavor_obj is None\<close> block: the catalog, by name, then by RAM.\<close>

definition search_catalog :: "env \<Rightarrow> scalar \<Rightarrow> resource action" where
  "search_catalog env flavor =
     bind (list_flavors env) (\<lambda>flavors. lift (
       except_IndexError (and_then (flavors_where ''name'' flavor flavors) getitem0)
         (except_IndexError (and_then (flavors_where ''ram'' flavor flavors) getitem0)
            (Inl (FlavorNotFound
                    (''Could not determine flavor from '' @ quoted (str_scalar flavor) @ ''.''))))))"

fun get_flavor_ref :: "env \<Rightarrow> flavor_arg \<Rightarrow> pyval action" where
  "get_flavor_ref env (FlavorObj flavor) = lift (self_href flavor)"
| "get_flavor_ref env (FlavorVal flavor) =
     bind (lookup_by_id env flavor) (\<lambda>flavor_obj.
     bind (case flavor_obj of
             None \<Rightarrow> search_catalog env flavor
           | Some found \<Rightarrow> returns found) (\<lambda>flavor_obj.
     lift (self_href flavor_obj)))"

section \<open>CloudDatabaseClient: request bodies\<close>

definition opt_str :: "string option \<Rightarrow> pyval" where
  "opt_str s = (case s of None \<Rightarrow> PNone | Some x \<Rightarrow> PStr x)"

definition create_body :: "env \<Rightarrow> string \<Rightarrow> create_kwargs \<Rightarrow> pyval action" where
  "create_body env name kw =
     (case kw_character_set kw of
        Some character_set \<Rightarrow>
          returns (PDict [(''databases'', PList [PDict
                     [(''name'', PStr name),
                      (''character_set'', PStr character_set),
                      (''collate'', opt_str (kw_collate kw))]])])
      | None \<Rightarrow>
         (case kw_password kw of
            Some password \<Rightarrow>
              (case kw_database_names kw of
                 None \<Rightarrow> raises TypeError
               | Some database_names \<Rightarrow>
                   returns (PDict [(''users'', PList [PDict
                              [(''name'', PStr name),
                               (''password'', PStr password),
                               (''databases'',
                                  PList (map (\<lambda>db. PDict [(''name'', db)]) database_names))]])]))
          | None \<Rightarrow>
              (let flavor = (case kw_flavor kw of None \<Rightarrow> FlavorVal (IntVal 1) | Some f \<Rightarrow> f)
               in bind (get_flavor_ref env flavor) (\<lambda>flavor_ref.
                  let volume = (case kw_volume kw of None \<Rightarrow> PInt 1 | Some v \<Rightarrow> v);
                      databases = (case kw_databases kw of None \<Rightarrow> PList [] | Some d \<Rightarrow> d);
                      users = (case kw_users kw of None \<Rightarrow> PList [] | Some u \<Rightarrow> u)
                  in returns (PDict [(''instance'', PDict
                                [(''name'', PStr name),
                                 (''flavorRef'', flavor_ref),
                                 (''volume'', PDict [(''size'', volume)]),
                                 (''databases'', databases),
                                 (''users'', users)])])))))"

section \<open>CloudDatabaseInstance\<close>

definition list_databases :: "env \<Rightarrow> db_instance \<Rightarrow> resource list action" where
  "list_databases env self = ask (reply_resources env) (ManagerList (database_manager self))"

definition list_users :: "env \<Rightarrow> db_instance \<Rightarrow> resource list action" where
  "list_users env self = ask (reply_resources env) (ManagerList (user_manager self))"

definition create_database ::
  "env \<Rightarrow> db_instance \<Rightarrow> string \<Rightarrow> string option \<Rightarrow> string option \<Rightarrow> resource action" where
  "create_database env self name character_set collate =
     (let character_set = (case character_set of None \<Rightarrow> ''utf8'' | Some c \<Rightarrow> c);
          collate = (case collate of None \<Rightarrow> ''utf8_general_ci'' | Some c \<Rightarrow> c)
      in bind (ask (reply_none env)
                 (ManagerCreate (database_manager self) name
                    (no_kwargs\<lparr>kw_character_set := Some character_set,
                                kw_collate := Some collate\<rparr>) True))
           (\<lambda>_. ask (reply_resource env) (ManagerFind (database_manager self) name)))"

text \<open>\<^verbatim>\<open>db if isinstance(db, basestring) else db.name\<close>.\<close>

fun db_name :: "db_ref \<Rightarrow> exc + pyval option" where
  "db_name (DbName s) = Inr (Some (PStr s))"
| "db_name (DbObj db) = and_then (getattr db ''name'') (\<lambda>n. Inr (Some n))"

definition create_user ::
  "env \<Rightarrow> db_instance \<Rightarrow> string \<Rightarrow> string \<Rightarrow> db_names_arg \<Rightarrow> resource action" where
  "create_user env self name password database_names =
     (let database_names = (case database_names of DbList dbs \<Rightarrow> dbs | DbSingle db \<Rightarrow> [db])
      in bind (lift (comprehension db_name database_names)) (\<lambda>database_names.
         bind (ask (reply_none env)
                 (ManagerCreate (user_manager self) name
                    (no_kwargs\<lparr>kw_password := Some password,
                                kw_database_names := Some database_names\<rparr>) True))
           (\<lambda>_. ask (reply_resource env) (ManagerFind (user_manager self) name))))"

text \<open>
  Modelled from the spec: \<^verbatim>\<open>BaseManager.delete\<close> is not part of this file. Section 7: delete
  operations swallow not-found conditions and succeed silently; all other errors
  propagate to the caller. The reply to the call is the outcome of the delete request.
\<close>

definition manager_delete :: "env \<Rightarrow> string \<Rightarrow> string \<Rightarrow> unit action" where
  "manager_delete env uri_base item =
     try_except (ask (reply_none env) (ManagerDelete uri_base item))
                (\<lambda>e. if e = NotFound then returns () else raises e)"

definition delete_database :: "env \<Rightarrow> db_instance \<Rightarrow> string \<Rightarrow> unit action" where
  "delete_database env self name = manager_delete env (database_manager self) name"

definition delete_user :: "env \<Rightarrow> db_instance \<Rightarrow> string \<Rightarrow> unit action" where
  "delete_user env self name = manager_delete env (user_manager self) name"

definition enable_root_user :: "env \<Rightarrow> db_instance \<Rightarrow> pyval action" where
  "enable_root_user env self =
     (let uri = ''/instances/'' @ inst_id self @ ''/root''
      in bind (ask (reply_body env) (MethodPost uri None)) (\<lambda>body.
         lift (and_then (subscript body ''user'') (\<lambda>user. subscript user ''password''))))"

definition root_user_status :: "env \<Rightarrow> db_instance \<Rightarrow> pyval action" where
  "root_user_status env self =
     (let uri = ''/instances/'' @ inst_id self @ ''/root''
      in bind (ask (reply_body env) (MethodGet uri)) (\<lambda>body.
         lift (subscript body ''rootEnabled'')))"

definition restart :: "env \<Rightarrow> db_instance \<Rightarrow> unit action" where
  "restart env self =
     (let uri = ''/instances/'' @ inst_id self @ ''/action'';
          body = PDict [(''restart'', PDict [])]
      in bind (ask (reply_body env) (MethodPost uri (Some body))) (\<lambda>_. returns ()))"

definition resize :: "env \<Rightarrow> db_instance \<Rightarrow> flavor_arg \<Rightarrow> unit action" where
  "resize env self flavor =
     (let uri = ''/instances/'' @ inst_id self @ ''/action''
      in bind (get_flavor_ref env flavor) (\<lambda>flavorRef.
         let body = PDict [(''resize'', PDict [(''flavorRef'', flavorRef)])]
         in bind (ask (reply_body env) (MethodPost uri (Some body))) (\<lambda>_. returns ())))"

text \<open>
  \<^verbatim>\<open>self.volume.get("size")\<close> is \<^verbatim>\<open>None\<close> when the dict has no such key, and in Python 2
  \<^verbatim>\<open>size <= None\<close> is false for every integer.
\<close>

definition resize_volume :: "env \<Rightarrow> db_instance \<Rightarrow> int \<Rightarrow> unit action" where
  "resize_volume env self new_size =
     (let curr_size = map_of (inst_volume self) ''size''
      in if (case curr_size of None \<Rightarrow> False | Some c \<Rightarrow> new_size \<le> c)
         then raises (InvalidVolumeResize
                (''The new volume size must be larger than the current volume size of ''
                 @ quoted (case curr_size of None \<Rightarrow> ''None'' | Some c \<Rightarrow> str_int c) @ ''.''))
         else (let uri = ''/instances/'' @ inst_id self @ ''/action'';
                   body = PDict [(''resize'', PDict [(''volume'', PDict [(''size'', PInt new_size)])])]
               in bind (ask (reply_body env) (MethodPost uri (Some body))) (\<lambda>_. returns ())))"

text \<open>
  The \<^verbatim>\<open>flavor\<close> property. The getter returns the value read and the instance, whose slot
  it fills on the first read; the setter returns the instance.
\<close>

definition instance_get_flavor :: "db_instance \<Rightarrow> resource \<times> db_instance" where
  "instance_get_flavor self =
     (case inst_flavor_slot self of
        Some ret \<Rightarrow> (ret, self)
      | None \<Rightarrow> (let ret = CloudDatabaseFlavor (inst_manager self) [] None
                 in (ret, self\<lparr>inst_flavor_slot := Some ret\<rparr>)))"

definition instance_set_flavor :: "db_instance \<Rightarrow> flavor_setting \<Rightarrow> db_instance" where
  "instance_set_flavor self flavor =
     (case flavor of
        FromDict d \<Rightarrow>
          self\<lparr>inst_flavor_slot := Some (CloudDatabaseFlavor (inst_manager self) d (Some True))\<rparr>
      | FromFlavor f \<Rightarrow> self\<lparr>inst_flavor_slot := Some f\<rparr>)"

section \<open>CloudDatabaseClient: instance-scoped operations\<close>

definition assure_instance :: "env \<Rightarrow> (db_instance \<Rightarrow> 'a action) \<Rightarrow> instance_arg \<Rightarrow> 'a action" where
  "assure_instance env fnc inst =
     (case inst of
        InstanceObj i \<Rightarrow> fnc i
      | InstanceId ident \<Rightarrow>
          bind (ask (reply_instance env) (ManagerGet ''instances'' ident)) fnc)"

definition client_list_databases :: "env \<Rightarrow> instance_arg \<Rightarrow> resource list action" where
  "client_list_databases env = assure_instance env (\<lambda>inst. list_databases env inst)"

definition client_create_database ::
  "env \<Rightarrow> instance_arg \<Rightarrow> string \<Rightarrow> string option \<Rightarrow> string option \<Rightarrow> resource action" where
  "client_create_database env inst name character_set collate =
     assure_instance env (\<lambda>inst. create_database env inst name character_set collate) inst"

definition client_delete_database :: "env \<Rightarrow> instance_arg \<Rightarrow> string \<Rightarrow> unit action" where
  "client_delete_database env inst name =
     assure_instance env (\<lambda>inst. delete_database env inst name) inst"

definition client_list_users :: "env \<Rightarrow> instance_arg \<Rightarrow> resource list action" where
  "client_list_users env = assure_instance env (\<lambda>inst. list_users env inst)"

definition client_create_user ::
  "env \<Rightarrow> instance_arg \<Rightarrow> string \<Rightarrow> string \<Rightarrow> db_names_arg \<Rightarrow> resource action" where
  "client_create_user env inst name password database_names =
     assure_instance env (\<lambda>inst. create_user env inst name password database_names) inst"

definition client_delete_user :: "env \<Rightarrow> instance_arg \<Rightarrow> string \<Rightarrow> unit action" where
  "client_delete_user env inst name =
     assure_instance env (\<lambda>inst. delete_user env inst name) inst"

definition client_enable_root_user :: "env \<Rightarrow> instance_arg \<Rightarrow> pyval action" where
  "client_enable_root_user env = assure_instance env (\<lambda>inst. enable_root_user env inst)"

definition client_root_user_status :: "env \<Rightarrow> instance_arg \<Rightarrow> pyval action" where
  "client_root_user_status env = assure_instance env (\<lambda>inst. root_user_status env inst)"

definition client_resize :: "env \<Rightarrow> instance_arg \<Rightarrow> flavor_arg \<Rightarrow> unit action" where
  "client_resize env inst flavor = assure_instance env (\<lambda>inst. resize env inst flavor) inst"

section \<open>Notions used to state the properties\<close>

text \<open>An optional argument, or the default that stands for an omitted one.\<close>

definition or_default :: "'a option \<Rightarrow> 'a \<Rightarrow> 'a" where
  "or_default x d = (case x of None \<Rightarrow> d | Some v \<Rightarrow> v)"


text \<open>A resource carries the attribute; and its value equals the plain argument.\<close>

definition has_attr :: "string \<Rightarrow> resource \<Rightarrow> bool" where
  "has_attr attr r = (map_of (res_info r) attr \<noteq> None)"

definition attr_is :: "string \<Rightarrow> scalar \<Rightarrow> resource \<Rightarrow> bool" where
  "attr_is attr v flav = (case map_of (res_info flav) attr of
                            None \<Rightarrow> False
                          | Some a \<Rightarrow> py_eq a v)"

text \<open>
  A catalog reply is well formed when it is an error or every flavor in it carries the
  \<^verbatim>\<open>name\<close> and \<^verbatim>\<open>ram\<close> attributes of the data model.
\<close>

definition catalog_ok :: "exc + resource list \<Rightarrow> bool" where
  "catalog_ok r = (case r of
                     Inl _ \<Rightarrow> True
                   | Inr flavors \<Rightarrow>
                       list_all (\<lambda>flav. has_attr ''name'' flav \<and> has_attr ''ram'' flav) flavors)"

definition not_found_message :: "scalar \<Rightarrow> string" where
  "not_found_message v = ''Could not determine flavor from '' @ quoted (str_scalar v) @ ''.''"

text \<open>
  The specification's priority order, in its own words. Steps 3 to 5: the first exact
  name match of the catalog; if there is none, the first exact RAM match; if there is
  none, the flavor-not-found error carrying the input.
\<close>

definition pick_from_catalog :: "scalar \<Rightarrow> resource list \<Rightarrow> exc + resource" where
  "pick_from_catalog v catalog =
     (case find (attr_is ''name'' v) catalog of
        Some by_name \<Rightarrow> Inr by_name
      | None \<Rightarrow> (case find (attr_is ''ram'' v) catalog of
                   Some by_ram \<Rightarrow> Inr by_ram
                 | None \<Rightarrow> Inl (FlavorNotFound (not_found_message v))))"


text \<open>
  The calls of the id lookup the code makes, and the input matching no flavor by id:
  the lookup made answers not-found, or none is made.
\<close>

definition id_lookup :: "scalar \<Rightarrow> call list" where
  "id_lookup v = (case v of
                    IntVal i \<Rightarrow> [ManagerGet ''flavors'' (PInt i)]
                  | LongVal _ \<Rightarrow> []
                  | StrVal _ \<Rightarrow> [])"

definition no_id_match :: "env \<Rightarrow> call list \<Rightarrow> scalar \<Rightarrow> bool" where
  "no_id_match env calls v =
     (case v of
        IntVal i \<Rightarrow> reply_resource env calls (ManagerGet ''flavors'' (PInt i)) = Inl NotFound
      | LongVal _ \<Rightarrow> True
      | StrVal _ \<Rightarrow> True)"

text \<open>
  The specification's wrapper for instance-scoped operations: an Instance object is used
  as it is; anything else is first resolved by a lookup in the instance manager, and
  the Instance operation is invoked on the result.
\<close>

definition resolve_then :: "env \<Rightarrow> instance_arg \<Rightarrow> (db_instance \<Rightarrow> 'a action) \<Rightarrow> 'a action" where
  "resolve_then env inst operation calls =
     (case inst of
        InstanceObj i \<Rightarrow> operation i calls
      | InstanceId ident \<Rightarrow>
          (case reply_instance env calls (ManagerGet ''instances'' ident) of
             Inl e \<Rightarrow> (Inl e, calls @ [ManagerGet ''instances'' ident])
           | Inr i \<Rightarrow> operation i (calls @ [ManagerGet ''instances'' ident])))"

text \<open>A database reference that normalises to a plain name string, and that string.\<close>

fun named :: "db_ref \<Rightarrow> bool" where
  "named (DbName s) = True"
| "named (DbObj db) = (case map_of (res_info db) ''name'' of Some (PStr n) \<Rightarrow> True | _ \<Rightarrow> False)"

fun plain_name :: "db_ref \<Rightarrow> string" where
  "plain_name (DbName s) = s"
| "plain_name (DbObj db) = (case map_of (res_info db) ''name'' of Some (PStr n) \<Rightarrow> n | _ \<Rightarrow> [])"

text \<open>The three request bodies of section 6 of the specification.\<close>

definition database_body :: "string \<Rightarrow> string \<Rightarrow> pyval \<Rightarrow> pyval" where
  "database_body name character_set collate =
     PDict [(''databases'', PList [PDict [(''name'', PStr name),
                                          (''character_set'', PStr character_set),
                                          (''collate'', collate)]])]"

definition user_body :: "string \<Rightarrow> string \<Rightarrow> string list \<Rightarrow> pyval" where
  "user_body name password names =
     PDict [(''users'', PList [PDict [(''name'', PStr name),
                                      (''password'', PStr password),
                                      (''databases'',
                                         PList (map (\<lambda>db. PDict [(''name'', PStr db)]) names))]])]"

definition instance_body :: "string \<Rightarrow> pyval \<Rightarrow> pyval \<Rightarrow> pyval \<Rightarrow> pyval \<Rightarrow> pyval" where
  "instance_body name flavor_ref volume databases users =
     PDict [(''instance'', PDict [(''name'', PStr name),
                                  (''flavorRef'', flavor_ref),
                                  (''volume'', PDict [(''size'', volume)]),
                                  (''databases'', databases),
                                  (''users'', users)])]"

section \<open>Example data\<close>

definition example_flavor :: "int \<Rightarrow> pyval \<Rightarrow> pyval \<Rightarrow> string \<Rightarrow> resource" where
  "example_flavor i name ram href =
     CloudDatabaseFlavor ''flavors''
       [(''id'', PInt i), (''name'', name), (''ram'', ram),
        (''links'', PList [PDict [(''href'', PStr ''/bookmark''), (''rel'', PStr ''bookmark'')],
                           PDict [(''href'', PStr href), (''rel'', PStr ''self'')]])]
       (Some True)"

text \<open>The catalog of the specification's scenario.\<close>

definition example_catalog :: "resource list" where
  "example_catalog = [example_flavor 1 (PStr ''small'') (PInt 512) ''/f/1'',
                      example_flavor 2 (PStr ''medium'') (PInt 1024) ''/f/2'']"


definition example_instance :: db_instance where
  "example_instance = \<lparr>inst_manager = ''instances'', inst_id = ''abc'',
                        inst_volume = [(''size'', 2)], inst_flavor_slot = None\<rparr>"

definition example_database :: resource where
  "example_database = \<lparr>res_manager = ''instances/abc/databases'',
                        res_info = [(''name'', PStr ''db2''), (''character_set'', PStr ''utf8'')],
                        res_loaded = Some True\<rparr>"

definition example_kwargs :: create_kwargs where
  "example_kwargs =
     no_kwargs\<lparr>kw_flavor := Some (FlavorVal (StrVal ''medium'')),
                kw_volume := Some (PInt 50),
                kw_databases := Some (PList [PDict [(''name'', PStr ''db1'')]]),
                kw_users := Some (PList [PDict [(''name'', PStr ''u''),
                                                (''password'', PStr ''pw'')]])\<rparr>"

text \<open>An item exists under a manager once some earlier call created it there.\<close>

definition created :: "call list \<Rightarrow> string \<Rightarrow> string \<Rightarrow> bool" where
  "created calls uri_base name =
     list_ex (\<lambda>c. case c of
                     ManagerCreate u n _ _ \<Rightarrow> u = uri_base \<and> n = name
                   | _ \<Rightarrow> False) calls"

definition example_env :: "resource list \<Rightarrow> env" where
  "example_env catalog =
     \<lparr>reply_instance = (\<lambda>calls c. Inr example_instance),
      reply_resource = (\<lambda>calls c. case c of
          ManagerGet u ident \<Rightarrow>
            (case find (\<lambda>f. map_of (res_info f) ''id'' = Some ident) catalog of
               None \<Rightarrow> Inl NotFound
             | Some f \<Rightarrow> Inr f)
        | ManagerFind u n \<Rightarrow>
            if created calls u n
            then Inr \<lparr>res_manager = u, res_info = [(''name'', PStr n)], res_loaded = Some True\<rparr>
            else Inl NotFound
        | _ \<Rightarrow> Inl BadRequest),
      reply_resources = (\<lambda>calls c. Inr (if c = ManagerList ''flavors'' then catalog else [])),
      reply_body = (\<lambda>calls c. Inr (PDict [(''rootEnabled'', PBool False)])),
      reply_none = (\<lambda>calls c. case c of
          ManagerDelete u n \<Rightarrow> if created calls u n then Inr () else Inl NotFound
        | _ \<Rightarrow> Inr ())\<rparr>"

section \<open>Flavor reference resolution\<close>

text \<open>
  On a catalog whose flavors all carry the attribute, the comprehension is a filter, and
  taking element 0 of a filter is finding the first match.
\<close>

lemma flavors_where_filter:
  "list_all (has_attr attr) flavors \<Longrightarrow>
   flavors_where attr v flavors = Inr (filter (attr_is attr v) flavors)"
  by (induction flavors)
     (auto simp: flavors_where_def has_attr_def attr_is_def getattr_def and_then_def)

lemma getitem0_filter:
  "getitem0 (filter P xs) = (case find P xs of None \<Rightarrow> Inl IndexError | Some x \<Rightarrow> Inr x)"
  by (induction xs) (auto simp: getitem0_def)

lemma search_catalog_pick:
  assumes "catalog_ok (reply_resources env calls (ManagerList ''flavors''))"
  shows "search_catalog env v calls =
           (and_then (reply_resources env calls (ManagerList ''flavors'')) (pick_from_catalog v),
            calls @ [ManagerList ''flavors''])"
proof (cases "reply_resources env calls (ManagerList ''flavors'')")
  case (Inl e)
  then show ?thesis
    by (simp add: search_catalog_def list_flavors_def bind_def ask_def lift_def and_then_def)
next
  case (Inr flavors)
  with assms have n: "list_all (has_attr ''name'') flavors"
    and r: "list_all (has_attr ''ram'') flavors"
    by (simp_all add: catalog_ok_def list_all_iff)
  show ?thesis
    using Inr
    by (simp add: search_catalog_def list_flavors_def bind_def ask_def lift_def and_then_def
        flavors_where_filter[OF n] flavors_where_filter[OF r] getitem0_filter
        pick_from_catalog_def except_IndexError_def not_found_message_def
        split: option.splits)
qed




lemma lookup_by_id_no_match:
  "no_id_match env calls v \<Longrightarrow> lookup_by_id env v calls = (Inr None, calls @ id_lookup v)"
  by (cases v)
     (simp_all add: no_id_match_def id_lookup_def try_except_def bind_def get_flavor_def ask_def
        returns_def)

lemma find_None_list_ex: "(find P xs = None) = (\<not> list_ex P xs)"
  by (auto simp: find_None_iff list_ex_iff)

text \<open>
  C2. An input that matches no flavor fails with the flavor-not-found error, whose message
  carries the input as \<^verbatim>\<open>"%s"\<close> formats it: the id lookup, if there is one, answers
  not-found, the catalog is fetched, and none of its flavors has the input as its name or
  as its RAM size. No reference is returned and no other error is raised.
\<close>

theorem get_flavor_ref_not_found:
  assumes "no_id_match env calls v"
      and "reply_resources env (calls @ id_lookup v) (ManagerList ''flavors'') = Inr catalog"
      and "list_all (\<lambda>flav. has_attr ''name'' flav \<and> has_attr ''ram'' flav) catalog"
      and "\<not> list_ex (attr_is ''name'' v) catalog"
      and "\<not> list_ex (attr_is ''ram'' v) catalog"
  shows "get_flavor_ref env (FlavorVal v) calls =
           (Inl (FlavorNotFound (''Could not determine flavor from '' @ quoted (str_scalar v) @ ''.'')),
            calls @ id_lookup v @ [ManagerList ''flavors''])"
proof -
  have ok: "catalog_ok (reply_resources env (calls @ id_lookup v) (ManagerList ''flavors''))"
    using assms(2,3) by (simp add: catalog_ok_def)
  have "pick_from_catalog v catalog = Inl (FlavorNotFound (not_found_message v))"
    using assms(4,5) by (simp add: pick_from_catalog_def find_None_list_ex[symmetric])
  then show ?thesis
    using assms(2)
    by (simp add: bind_def lookup_by_id_no_match[OF assms(1)] search_catalog_pick[OF ok]
        and_then_def not_found_message_def)
qed

text \<open>The specification's scenario: \<^verbatim>\<open>resolve(99)\<close> on the catalog of two flavors.\<close>

theorem get_flavor_ref_not_found_witness:
  "no_id_match (example_env example_catalog) [] (IntVal 99)
   \<and> reply_resources (example_env example_catalog) ([] @ id_lookup (IntVal 99))
        (ManagerList ''flavors'') = Inr example_catalog
   \<and> list_all (\<lambda>flav. has_attr ''name'' flav \<and> has_attr ''ram'' flav) example_catalog
   \<and> \<not> list_ex (attr_is ''name'' (IntVal 99)) example_catalog
   \<and> \<not> list_ex (attr_is ''ram'' (IntVal 99)) example_catalog
   \<and> get_flavor_ref (example_env example_catalog) (FlavorVal (IntVal 99)) []
       = (Inl (FlavorNotFound (''Could not determine flavor from '' @ [CHR 0x27] @ ''99'' @ [CHR 0x27] @ ''.'')),
          [ManagerGet ''flavors'' (PInt 99), ManagerList ''flavors''])"
proof -
  have a: "no_id_match (example_env example_catalog) [] (IntVal 99)"
    by (simp add: no_id_match_def example_env_def example_catalog_def example_flavor_def
        CloudDatabaseFlavor_def)
  have b: "reply_resources (example_env example_catalog) ([] @ id_lookup (IntVal 99))
        (ManagerList ''flavors'') = Inr example_catalog"
    by (simp add: example_env_def)
  have c: "list_all (\<lambda>flav. has_attr ''name'' flav \<and> has_attr ''ram'' flav) example_catalog"
    by (simp add: example_catalog_def has_attr_def example_flavor_def CloudDatabaseFlavor_def)
  have d: "\<not> list_ex (attr_is ''name'' (IntVal 99)) example_catalog"
    by (simp add: example_catalog_def attr_is_def example_flavor_def CloudDatabaseFlavor_def)
  have e: "\<not> list_ex (attr_is ''ram'' (IntVal 99)) example_catalog"
    by (simp add: example_catalog_def attr_is_def example_flavor_def CloudDatabaseFlavor_def)
  have s: "str_int 99 = ''99''"
    by (simp add: str_int_def)
  show ?thesis
    using a b c d e get_flavor_ref_not_found[OF a b c d e]
    by (simp add: id_lookup_def quoted_def s del: get_flavor_ref.simps)
qed

section \<open>Instance operations\<close>

lemma manager_delete_not_found:
  "reply_none env calls (ManagerDelete uri_base item) = Inl NotFound \<Longrightarrow>
   manager_delete env uri_base item calls = (Inr (), calls @ [ManagerDelete uri_base item])"
  by (simp add: manager_delete_def try_except_def ask_def returns_def)

text \<open>
  C3. Deleting a database or a user that does not exist under the instance completes
  without raising: the not-found answer to the delete request is swallowed and the
  operation returns normally.
\<close>

theorem delete_missing_is_silent:
  "(reply_none env calls (ManagerDelete (database_manager self) name) = Inl NotFound
      \<longrightarrow> delete_database env self name calls
            = (Inr (), calls @ [ManagerDelete (database_manager self) name]))
   \<and> (reply_none env calls (ManagerDelete (user_manager self) name) = Inl NotFound
      \<longrightarrow> delete_user env self name calls
            = (Inr (), calls @ [ManagerDelete (user_manager self) name]))"
  by (simp add: delete_database_def delete_user_def manager_delete_not_found)

text \<open>Nothing was created under the example instance, so \<^verbatim>\<open>"missing"\<close> is not found.\<close>

theorem delete_missing_is_silent_witness:
  "reply_none (example_env example_catalog) []
       (ManagerDelete (database_manager example_instance) ''missing'') = Inl NotFound
   \<and> reply_none (example_env example_catalog) []
       (ManagerDelete (user_manager example_instance) ''missing'') = Inl NotFound
   \<and> delete_database (example_env example_catalog) example_instance ''missing'' []
       = (Inr (), [ManagerDelete ''instances/abc/databases'' ''missing''])
   \<and> delete_user (example_env example_catalog) example_instance ''missing'' []
       = (Inr (), [ManagerDelete ''instances/abc/users'' ''missing''])"
proof -
  have d: "reply_none (example_env example_catalog) []
       (ManagerDelete (database_manager example_instance) ''missing'') = Inl NotFound"
    by (simp add: example_env_def created_def)
  have u: "reply_none (example_env example_catalog) []
       (ManagerDelete (user_manager example_instance) ''missing'') = Inl NotFound"
    by (simp add: example_env_def created_def)
  have n: "database_manager example_instance = ''instances/abc/databases''"
    "user_manager example_instance = ''instances/abc/users''"
    by (simp_all add: database_manager_def user_manager_def example_instance_def)
  show ?thesis
    using d u delete_missing_is_silent
                [of "example_env example_catalog" "[]" example_instance "''missing''"]
    by (simp add: n)
qed

text \<open>
  C4. With current volume size \<open>c\<close>, \<^verbatim>\<open>resize_volume\<close> raises \<^verbatim>\<open>InvalidVolumeResize\<close>
  exactly when the new size is at most \<open>c\<close>, and then makes no call at all; for a larger
  size it posts the body \<^verbatim>\<open>{"resize": {"volume": {"size": size}}}\<close> to the instance's
  action URI, and the only error it can end with is the one the transport raised.
\<close>

theorem resize_volume_guard:
  assumes "map_of (inst_volume self) ''size'' = Some c"
  shows "resize_volume env self new_size calls =
           (let request = MethodPost (''/instances/'' @ inst_id self @ ''/action'')
                            (Some (PDict [(''resize'',
                                     PDict [(''volume'', PDict [(''size'', PInt new_size)])])]))
            in if new_size \<le> c
               then (Inl (InvalidVolumeResize
                       (''The new volume size must be larger than the current volume size of ''
                        @ quoted (str_int c) @ ''.'')), calls)
               else (case reply_body env calls request of
                       Inl e \<Rightarrow> Inl e
                     | Inr _ \<Rightarrow> Inr (),
                     calls @ [request]))"
  using assms
  by (simp add: resize_volume_def Let_def raises_def bind_def ask_def returns_def
      split: sum.splits)

text \<open>The specification's scenario: current size 2, new sizes 2 and 5.\<close>

theorem resize_volume_guard_witness:
  "map_of (inst_volume example_instance) ''size'' = Some 2
   \<and> (\<exists>message. resize_volume (example_env example_catalog) example_instance 2 []
                   = (Inl (InvalidVolumeResize message), []))
   \<and> resize_volume (example_env example_catalog) example_instance 5 []
       = (Inr (), [MethodPost ''/instances/abc/action''
                     (Some (PDict [(''resize'', PDict [(''volume'', PDict [(''size'', PInt 5)])])]))])"
proof -
  have v: "map_of (inst_volume example_instance) ''size'' = Some 2"
    by (simp add: example_instance_def)
  have i: "inst_id example_instance = ''abc''"
    by (simp add: example_instance_def)
  have r: "\<And>calls c. reply_body (example_env example_catalog) calls c
                        = Inr (PDict [(''rootEnabled'', PBool False)])"
    by (simp add: example_env_def)
  show ?thesis
    using v resize_volume_guard[OF v, of "example_env example_catalog" 2 "[]"]
      resize_volume_guard[OF v, of "example_env example_catalog" 5 "[]"]
    by (simp add: i r)
qed

text \<open>
  C5. \<^verbatim>\<open>create_database\<close> passes \<^verbatim>\<open>"utf8"\<close> for an omitted character set and
  \<^verbatim>\<open>"utf8_general_ci"\<close> for an omitted collation to the manager's create, whose body for
  these arguments is the database-creation body with these values; when the create
  succeeds, the object returned is the answer to a following find by name, and when it
  raises, no find is made.
\<close>

theorem create_database_defaults:
  "(let sent = no_kwargs\<lparr>kw_character_set := Some (or_default character_set ''utf8''),
                         kw_collate := Some (or_default collate ''utf8_general_ci'')\<rparr>;
        create = ManagerCreate (database_manager self) name sent True;
        find_it = ManagerFind (database_manager self) name
    in create_database env self name character_set collate calls
         = (case reply_none env calls create of
              Inl e \<Rightarrow> (Inl e, calls @ [create])
            | Inr _ \<Rightarrow> (reply_resource env (calls @ [create]) find_it, calls @ [create, find_it]))
       \<and> create_body env name sent calls
           = (Inr (database_body name (or_default character_set ''utf8'')
                     (PStr (or_default collate ''utf8_general_ci''))), calls))"
  by (cases character_set; cases collate)
     (simp_all add: create_database_def Let_def or_default_def bind_def ask_def create_body_def
        no_kwargs_def returns_def database_body_def opt_str_def split: sum.splits)

theorem create_database_defaults_witness:
  "create_database (example_env example_catalog) example_instance ''db1'' None None []
     = (Inr \<lparr>res_manager = ''instances/abc/databases'', res_info = [(''name'', PStr ''db1'')],
             res_loaded = Some True\<rparr>,
        [ManagerCreate ''instances/abc/databases'' ''db1''
           (no_kwargs\<lparr>kw_character_set := Some ''utf8'', kw_collate := Some ''utf8_general_ci''\<rparr>)
           True,
         ManagerFind ''instances/abc/databases'' ''db1''])
   \<and> create_body (example_env example_catalog) ''db1''
        (no_kwargs\<lparr>kw_character_set := Some ''utf8'', kw_collate := Some ''utf8_general_ci''\<rparr>) []
       = (Inr (PDict [(''databases'', PList [PDict [(''name'', PStr ''db1''),
                                                    (''character_set'', PStr ''utf8''),
                                                    (''collate'', PStr ''utf8_general_ci'')]])]), [])"
proof -
  have n: "database_manager example_instance = ''instances/abc/databases''"
    by (simp add: database_manager_def example_instance_def)
  have c: "\<And>calls u nm kw. reply_none (example_env example_catalog) calls
                              (ManagerCreate u nm kw True) = Inr ()"
    by (simp add: example_env_def)
  have f: "\<And>u nm kw. reply_resource (example_env example_catalog)
                          [ManagerCreate u nm kw True] (ManagerFind u nm)
                        = Inr \<lparr>res_manager = u, res_info = [(''name'', PStr nm)],
                               res_loaded = Some True\<rparr>"
    by (simp add: example_env_def created_def)
  show ?thesis
    using create_database_defaults
            [where character_set = None and collate = None and self = example_instance
               and name = "''db1''" and env = "example_env example_catalog" and calls = "[]"]
    by (simp add: n Let_def or_default_def c f database_body_def)
qed

lemma comprehension_db_name:
  "list_all named dbs \<Longrightarrow>
   comprehension db_name dbs = Inr (map (\<lambda>db. PStr (plain_name db)) dbs)"
proof (induction dbs)
  case Nil
  then show ?case by simp
next
  case (Cons db dbs)
  then show ?case
    by (cases db) (auto simp: getattr_def and_then_def split: option.splits pyval.splits)
qed

text \<open>
  C6. \<^verbatim>\<open>create_user\<close> with a list that mixes bare names and Database objects (each
  holding a string name) passes the plain name strings, in order, to the manager's
  create, and the body built for these arguments is
  \<^verbatim>\<open>{"users": [{"name": name, "password": password, "databases": [{"name": db}, ...]}]}\<close>.
\<close>

theorem create_user_normalizes_names:
  assumes "list_all named dbs"
  shows "(let names = map plain_name dbs;
              sent = no_kwargs\<lparr>kw_password := Some password,
                               kw_database_names := Some (map PStr names)\<rparr>;
              create = ManagerCreate (user_manager self) name sent True;
              find_it = ManagerFind (user_manager self) name
          in create_user env self name password (DbList dbs) calls
               = (case reply_none env calls create of
                    Inl e \<Rightarrow> (Inl e, calls @ [create])
                  | Inr _ \<Rightarrow> (reply_resource env (calls @ [create]) find_it,
                              calls @ [create, find_it]))
             \<and> create_body env name sent calls = (Inr (user_body name password names), calls))"
  by (simp add: create_user_def Let_def bind_def lift_def ask_def comprehension_db_name[OF assms]
      create_body_def no_kwargs_def returns_def user_body_def comp_def split: sum.splits)

theorem create_user_normalizes_names_witness:
  "list_all named [DbName ''db1'', DbObj example_database]
   \<and> create_user (example_env example_catalog) example_instance ''u'' ''pw''
        (DbList [DbName ''db1'', DbObj example_database]) []
       = (Inr \<lparr>res_manager = ''instances/abc/users'', res_info = [(''name'', PStr ''u'')],
               res_loaded = Some True\<rparr>,
          [ManagerCreate ''instances/abc/users'' ''u''
             (no_kwargs\<lparr>kw_password := Some ''pw'',
                         kw_database_names := Some [PStr ''db1'', PStr ''db2'']\<rparr>) True,
           ManagerFind ''instances/abc/users'' ''u''])
   \<and> create_body (example_env example_catalog) ''u''
        (no_kwargs\<lparr>kw_password := Some ''pw'',
                    kw_database_names := Some [PStr ''db1'', PStr ''db2'']\<rparr>) []
       = (Inr (PDict [(''users'', PList [PDict
                 [(''name'', PStr ''u''), (''password'', PStr ''pw''),
                  (''databases'', PList [PDict [(''name'', PStr ''db1'')],
                                         PDict [(''name'', PStr ''db2'')]])]])]), [])"
proof -
  have h: "list_all named [DbName ''db1'', DbObj example_database]"
    by (simp add: example_database_def)
  have n: "user_manager example_instance = ''instances/abc/users''"
    by (simp add: user_manager_def example_instance_def)
  have c: "\<And>calls u nm kw. reply_none (example_env example_catalog) calls
                              (ManagerCreate u nm kw True) = Inr ()"
    by (simp add: example_env_def)
  have f: "\<And>u nm kw. reply_resource (example_env example_catalog)
                          [ManagerCreate u nm kw True] (ManagerFind u nm)
                        = Inr \<lparr>res_manager = u, res_info = [(''name'', PStr nm)],
                               res_loaded = Some True\<rparr>"
    by (simp add: example_env_def created_def)
  have p: "map_of (res_info example_database) ''name'' = Some (PStr ''db2'')"
    by (simp add: example_database_def)
  show ?thesis
    using h create_user_normalizes_names
              [OF h, where self = example_instance and password = "''pw''" and name = "''u''"
                 and env = "example_env example_catalog" and calls = "[]"]
    by (simp add: n Let_def c f p user_body_def)
qed

section \<open>Request bodies\<close>

text \<open>
  C7. With \<^verbatim>\<open>character_set\<close> and \<^verbatim>\<open>password\<close> both \<^verbatim>\<open>None\<close>, the builder resolves the flavor
  given, or the integer 1 when none is given, to its reference, and returns the
  instance-creation body with that reference, the volume size given or else 1, the
  databases given or else the empty list, and the users given or else the empty list; a
  failing resolution is the result.
\<close>

theorem create_body_instance_branch:
  assumes "kw_character_set kw = None" and "kw_password kw = None"
  shows "create_body env name kw calls =
           (case get_flavor_ref env
                   (case kw_flavor kw of None \<Rightarrow> FlavorVal (IntVal 1) | Some given \<Rightarrow> given)
                   calls of
              (Inl e, calls') \<Rightarrow> (Inl e, calls')
            | (Inr flavor_ref, calls') \<Rightarrow>
                (Inr (instance_body name flavor_ref
                        (case kw_volume kw of None \<Rightarrow> PInt 1 | Some given \<Rightarrow> given)
                        (case kw_databases kw of None \<Rightarrow> PList [] | Some given \<Rightarrow> given)
                        (case kw_users kw of None \<Rightarrow> PList [] | Some given \<Rightarrow> given)),
                 calls'))"
  using assms
  by (simp add: create_body_def Let_def bind_def returns_def instance_body_def
      split: prod.splits sum.splits del: get_flavor_ref.simps)

text \<open>
  No argument given: flavor 1 is found by id, and every default appears in the body.
  Arguments given: the flavor named \<^verbatim>\<open>"medium"\<close>, volume size 50, one database and one
  user appear in the body as they were given.
\<close>

theorem create_body_instance_branch_witness:
  "kw_character_set no_kwargs = None \<and> kw_password no_kwargs = None
   \<and> create_body (example_env example_catalog) ''inst'' no_kwargs []
       = (Inr (PDict [(''instance'', PDict
                 [(''name'', PStr ''inst''),
                  (''flavorRef'', PStr ''/f/1''),
                  (''volume'', PDict [(''size'', PInt 1)]),
                  (''databases'', PList []),
                  (''users'', PList [])])]),
          [ManagerGet ''flavors'' (PInt 1)])
   \<and> kw_character_set example_kwargs = None \<and> kw_password example_kwargs = None
   \<and> create_body (example_env example_catalog) ''inst'' example_kwargs []
       = (Inr (PDict [(''instance'', PDict
                 [(''name'', PStr ''inst''),
                  (''flavorRef'', PStr ''/f/2''),
                  (''volume'', PDict [(''size'', PInt 50)]),
                  (''databases'', PList [PDict [(''name'', PStr ''db1'')]]),
                  (''users'', PList [PDict [(''name'', PStr ''u''),
                                            (''password'', PStr ''pw'')]])])]),
          [ManagerList ''flavors''])"
proof -
  have c: "kw_character_set no_kwargs = None" and p: "kw_password no_kwargs = None"
    and k: "kw_flavor no_kwargs = None" "kw_volume no_kwargs = None"
           "kw_databases no_kwargs = None" "kw_users no_kwargs = None"
    by (simp_all add: no_kwargs_def)
  have c': "kw_character_set example_kwargs = None" and p': "kw_password example_kwargs = None"
    and k': "kw_flavor example_kwargs = Some (FlavorVal (StrVal ''medium''))"
            "kw_volume example_kwargs = Some (PInt 50)"
            "kw_databases example_kwargs = Some (PList [PDict [(''name'', PStr ''db1'')]])"
            "kw_users example_kwargs
               = Some (PList [PDict [(''name'', PStr ''u''), (''password'', PStr ''pw'')]])"
    by (simp_all add: example_kwargs_def no_kwargs_def)
  have g: "reply_resource (example_env example_catalog) [] (ManagerGet ''flavors'' (PInt 1))
             = Inr (example_flavor 1 (PStr ''small'') (PInt 512) ''/f/1'')"
    by (simp add: example_env_def example_catalog_def example_flavor_def CloudDatabaseFlavor_def)
  have h: "self_href (example_flavor i n m href) = Inr (PStr href)" for i n m href
    by (simp add: self_href_def example_flavor_def CloudDatabaseFlavor_def getattr_def
        and_then_def iterate_def subscript_def getitem0_def)
  have r: "get_flavor_ref (example_env example_catalog) (FlavorVal (IntVal 1)) []
             = (Inr (PStr ''/f/1''), [ManagerGet ''flavors'' (PInt 1)])"
    by (simp add: bind_def try_except_def get_flavor_def ask_def returns_def lift_def g h)
  have l: "list_flavors (example_env example_catalog) [] = (Inr example_catalog, [ManagerList ''flavors''])"
    by (simp add: list_flavors_def ask_def example_env_def)
  have w: "flavors_where ''name'' (StrVal ''medium'') example_catalog
             = Inr [example_flavor 2 (PStr ''medium'') (PInt 1024) ''/f/2'']"
    by (simp add: flavors_where_def example_catalog_def example_flavor_def
        CloudDatabaseFlavor_def getattr_def and_then_def)
  have r': "get_flavor_ref (example_env example_catalog) (FlavorVal (StrVal ''medium'')) []
             = (Inr (PStr ''/f/2''), [ManagerList ''flavors''])"
    by (simp add: bind_def returns_def lift_def search_catalog_def l w and_then_def
        getitem0_def except_IndexError_def h)
  from c p c' p'
    create_body_instance_branch
      [OF c p, where env = "example_env example_catalog" and name = "''inst''" and calls = "[]"]
    create_body_instance_branch
      [OF c' p', where env = "example_env example_catalog" and name = "''inst''" and calls = "[]"]
  show ?thesis
    by (simp add: k k' r r' instance_body_def del: get_flavor_ref.simps)
qed

text \<open>
  C10. With \<^verbatim>\<open>character_set\<close> and \<^verbatim>\<open>password\<close> both given, the builder takes the
  character-set branch: it returns the database-creation body, makes no call, and the
  result is the same for any other \<^verbatim>\<open>password\<close> and \<^verbatim>\<open>database_names\<close>.
\<close>

theorem create_body_character_set_first:
  assumes "kw_character_set kw = Some character_set" and "kw_password kw = Some password"
  shows "create_body env name kw calls
           = (Inr (database_body name character_set (opt_str (kw_collate kw))), calls)
         \<and> create_body env name (kw\<lparr>kw_password := other_password,
                                     kw_database_names := other_names\<rparr>) calls
           = create_body env name kw calls"
  using assms
  by (simp add: create_body_def returns_def database_body_def)

theorem create_body_character_set_first_witness:
  "kw_character_set (no_kwargs\<lparr>kw_character_set := Some ''latin1'', kw_password := Some ''pw''\<rparr>)
     = Some ''latin1''
   \<and> kw_password (no_kwargs\<lparr>kw_character_set := Some ''latin1'', kw_password := Some ''pw''\<rparr>)
     = Some ''pw''
   \<and> create_body (example_env example_catalog) ''db1''
        (no_kwargs\<lparr>kw_character_set := Some ''latin1'', kw_password := Some ''pw''\<rparr>) []
       = (Inr (PDict [(''databases'', PList [PDict [(''name'', PStr ''db1''),
                                                    (''character_set'', PStr ''latin1''),
                                                    (''collate'', PNone)]])]), [])"
proof -
  have c: "kw_character_set (no_kwargs\<lparr>kw_character_set := Some ''latin1'',
                                         kw_password := Some ''pw''\<rparr>) = Some ''latin1''"
    and p: "kw_password (no_kwargs\<lparr>kw_character_set := Some ''latin1'',
                                     kw_password := Some ''pw''\<rparr>) = Some ''pw''"
    by simp_all
  have o: "kw_collate (no_kwargs\<lparr>kw_character_set := Some ''latin1'',
                                   kw_password := Some ''pw''\<rparr>) = None"
    by (simp add: no_kwargs_def)
  show ?thesis
    using c p create_body_character_set_first
                [OF c p, where env = "example_env example_catalog" and name = "''db1''"
                   and calls = "[]"]
    by (simp add: o opt_str_def database_body_def)
qed

section \<open>Instance-or-identifier arguments and the flavor property\<close>

lemma assure_instance_resolve_then:
  "assure_instance env fnc inst = resolve_then env inst fnc"
  by (rule ext)
     (simp add: assure_instance_def resolve_then_def bind_def ask_def
        split: instance_arg.splits sum.splits)

text \<open>
  C8. Each of the nine instance-scoped client operations takes an Instance object or an
  identifier; an identifier is first resolved by a lookup in the instance manager, and
  the Instance operation of the same name is then invoked with the same arguments.
\<close>

theorem client_operations_assure_instance:
  "client_list_databases env inst = resolve_then env inst (list_databases env)
   \<and> client_create_database env inst name character_set collate
       = resolve_then env inst (\<lambda>i. create_database env i name character_set collate)
   \<and> client_delete_database env inst name
       = resolve_then env inst (\<lambda>i. delete_database env i name)
   \<and> client_list_users env inst = resolve_then env inst (list_users env)
   \<and> client_create_user env inst name password database_names
       = resolve_then env inst (\<lambda>i. create_user env i name password database_names)
   \<and> client_delete_user env inst name
       = resolve_then env inst (\<lambda>i. delete_user env i name)
   \<and> client_enable_root_user env inst = resolve_then env inst (enable_root_user env)
   \<and> client_root_user_status env inst = resolve_then env inst (root_user_status env)
   \<and> client_resize env inst flavor = resolve_then env inst (\<lambda>i. resize env i flavor)"
  by (simp add: assure_instance_resolve_then client_list_databases_def
      client_create_database_def client_delete_database_def client_list_users_def
      client_create_user_def client_delete_user_def client_enable_root_user_def
      client_root_user_status_def client_resize_def)

theorem client_operations_assure_instance_witness:
  "client_root_user_status (example_env example_catalog) (InstanceId (PStr ''abc'')) []
     = (Inr (PBool False), [ManagerGet ''instances'' (PStr ''abc''), MethodGet ''/instances/abc/root''])
   \<and> client_root_user_status (example_env example_catalog) (InstanceObj example_instance) []
     = (Inr (PBool False), [MethodGet ''/instances/abc/root''])"
proof -
  have i: "\<And>calls c. reply_instance (example_env example_catalog) calls c = Inr example_instance"
    and b: "\<And>calls c. reply_body (example_env example_catalog) calls c
                        = Inr (PDict [(''rootEnabled'', PBool False)])"
    by (simp_all add: example_env_def)
  have s: "\<And>calls. root_user_status (example_env example_catalog) example_instance calls
             = (Inr (PBool False), calls @ [MethodGet ''/instances/abc/root''])"
    by (simp add: root_user_status_def example_instance_def bind_def ask_def lift_def b
        subscript_def)
  have "client_root_user_status (example_env example_catalog) (InstanceId (PStr ''abc''))
          = resolve_then (example_env example_catalog) (InstanceId (PStr ''abc''))
              (root_user_status (example_env example_catalog))"
    and "client_root_user_status (example_env example_catalog) (InstanceObj example_instance)
          = resolve_then (example_env example_catalog) (InstanceObj example_instance)
              (root_user_status (example_env example_catalog))"
    using client_operations_assure_instance[where env = "example_env example_catalog"]
    by simp_all
  then show ?thesis
    by (simp add: resolve_then_def i s)
qed

text \<open>
  C9. Reading \<^verbatim>\<open>flavor\<close> when it was never set builds an empty Flavor, stores it, and the
  next read returns that stored object and changes nothing. Setting it with a dict stores
  a new Flavor built from the dict; setting it with a Flavor object stores that object;
  in both cases a read then returns what was stored.
\<close>

theorem flavor_property:
  "(inst_flavor_slot self = None \<longrightarrow>
      (let placeholder = CloudDatabaseFlavor (inst_manager self) [] None;
           self' = snd (instance_get_flavor self)
       in fst (instance_get_flavor self) = placeholder
          \<and> res_info placeholder = []
          \<and> inst_flavor_slot self' = Some placeholder
          \<and> instance_get_flavor self' = (placeholder, self')))
   \<and> inst_flavor_slot (instance_set_flavor self (FromDict d))
       = Some (CloudDatabaseFlavor (inst_manager self) d (Some True))
   \<and> fst (instance_get_flavor (instance_set_flavor self (FromDict d)))
       = CloudDatabaseFlavor (inst_manager self) d (Some True)
   \<and> inst_flavor_slot (instance_set_flavor self (FromFlavor f)) = Some f
   \<and> fst (instance_get_flavor (instance_set_flavor self (FromFlavor f))) = f"
  by (simp add: instance_get_flavor_def instance_set_flavor_def Let_def CloudDatabaseFlavor_def)

theorem flavor_property_witness:
  "inst_flavor_slot example_instance = None
   \<and> instance_get_flavor example_instance
       = (\<lparr>res_manager = ''instances'', res_info = [], res_loaded = None\<rparr>,
          example_instance\<lparr>inst_flavor_slot :=
             Some \<lparr>res_manager = ''instances'', res_info = [], res_loaded = None\<rparr>\<rparr>)
   \<and> instance_get_flavor (snd (instance_get_flavor example_instance))
       = instance_get_flavor example_instance
   \<and> fst (instance_get_flavor (instance_set_flavor example_instance (FromDict [(''id'', PInt 2)])))
       = \<lparr>res_manager = ''instances'', res_info = [(''id'', PInt 2)], res_loaded = Some True\<rparr>"
proof -
  have n: "inst_flavor_slot example_instance = None"
    and m: "inst_manager example_instance = ''instances''"
    by (simp_all add: example_instance_def)
  have p: "p = (fst p, snd p)" for p :: "resource \<times> db_instance"
    by simp
  from n flavor_property[where self = example_instance and d = "[(''id'', PInt 2)]"]
  have g: "fst (instance_get_flavor example_instance)
             = \<lparr>res_manager = ''instances'', res_info = [], res_loaded = None\<rparr>"
    and t: "inst_flavor_slot (snd (instance_get_flavor example_instance))
             = Some \<lparr>res_manager = ''instances'', res_info = [], res_loaded = None\<rparr>"
    and r: "instance_get_flavor (snd (instance_get_flavor example_instance))
             = (\<lparr>res_manager = ''instances'', res_info = [], res_loaded = None\<rparr>,
                snd (instance_get_flavor example_instance))"
    and d: "fst (instance_get_flavor (instance_set_flavor example_instance
                                        (FromDict [(''id'', PInt 2)])))
             = \<lparr>res_manager = ''instances'', res_info = [(''id'', PInt 2)],
                res_loaded = Some True\<rparr>"
    by (simp_all add: Let_def CloudDatabaseFlavor_def m)
  have s: "snd (instance_get_flavor example_instance)
             = example_instance\<lparr>inst_flavor_slot :=
                 Some \<lparr>res_manager = ''instances'', res_info = [], res_loaded = None\<rparr>\<rparr>"
    by (simp add: instance_get_flavor_def n Let_def CloudDatabaseFlavor_def m)
  show ?thesis
    using n g r d s p[of "instance_get_flavor example_instance"] by simp
qed

end
